theory Spec2Isabelle
  imports Main "HOL-Library.AList"
begin

section \<open>JavaScript values, strings and objects\<close>

text \<open>
  The build script \<^verbatim>\<open>index.js\<close> is dynamically typed: a property that an object does
  not have reads as \<^verbatim>\<open>undefined\<close>, a number and a string may sit in the same array.
  The values the script handles are modelled by one datatype.
\<close>

datatype jsval = Undefined | Bool bool | Num nat | Str string

text \<open>An object literal is its list of properties, in insertion order (the order of \<^verbatim>\<open>for ... in\<close>).\<close>

type_synonym jsobj = "(string \<times> jsval) list"

definition dq :: char where
  "dq = CHR 0x22"

definition backslash :: char where
  "backslash = CHR 0x5C"

definition newline :: char where
  "newline = CHR 0x0A"

definition space :: char where
  "space = CHR 0x20"

text \<open>Decimal digits of a number, as \<^verbatim>\<open>String(n)\<close> prints a non-negative integer.\<close>

definition digit :: "nat \<Rightarrow> char" where
  "digit n = ''0123456789'' ! n"

fun decimal :: "nat \<Rightarrow> string" where
  "decimal n = (if n < 10 then [digit n] else decimal (n div 10) @ [digit (n mod 10)])"

declare decimal.simps [simp del]

text \<open>\<^verbatim>\<open>String(v)\<close>, which is also what a template literal and \<^verbatim>\<open>Array.prototype.join\<close> apply
  to a defined value.\<close>

fun to_string :: "jsval \<Rightarrow> string" where
  "to_string Undefined = ''undefined''"
| "to_string (Bool b) = (if b then ''true'' else ''false'')"
| "to_string (Num n) = decimal n"
| "to_string (Str s) = s"

text \<open>The truth value of \<^verbatim>\<open>v ? a : b\<close> and of \<^verbatim>\<open>if (v)\<close>.\<close>

fun truthy :: "jsval \<Rightarrow> bool" where
  "truthy Undefined = False"
| "truthy (Bool b) = b"
| "truthy (Num n) = (n \<noteq> 0)"
| "truthy (Str s) = (s \<noteq> [])"

text \<open>Reading \<^verbatim>\<open>obj.k\<close>: \<^verbatim>\<open>undefined\<close> when the object has no such property.\<close>

definition get_prop :: "jsobj \<Rightarrow> string \<Rightarrow> jsval" where
  "get_prop obj k = (case map_of obj k of Some v \<Rightarrow> v | None \<Rightarrow> Undefined)"

text \<open>Writing \<^verbatim>\<open>obj.k = v\<close>: an existing property keeps its place, a new one goes last.\<close>

definition set_prop :: "jsobj \<Rightarrow> string \<Rightarrow> jsval \<Rightarrow> jsobj" where
  "set_prop obj k v = AList.update k v obj"

text \<open>\<^verbatim>\<open>s.split(c)\<close> for a one-character separator: \<open>n\<close> separators give \<open>n + 1\<close> pieces, and
  the empty string gives one empty piece.\<close>

fun split_on :: "char \<Rightarrow> string \<Rightarrow> string list" where
  "split_on c [] = [[]]"
| "split_on c (x # xs) =
     (if x = c then [] # split_on c xs
      else (case split_on c xs of [] \<Rightarrow> [[x]] | w # ws \<Rightarrow> (x # w) # ws))"

text \<open>\<^verbatim>\<open>xs.join(sep)\<close> on strings.\<close>

fun join :: "string \<Rightarrow> string list \<Rightarrow> string" where
  "join sep [] = []"
| "join sep [x] = x"
| "join sep (x # y # ys) = x @ sep @ join sep (y # ys)"

text \<open>\<^verbatim>\<open>s.replace(/c/g, r)\<close> for a pattern that is one literal character.\<close>

fun replace_all :: "char \<Rightarrow> string \<Rightarrow> string \<Rightarrow> string" where
  "replace_all c r [] = []"
| "replace_all c r (x # xs) = (if x = c then r @ replace_all c r xs else x # replace_all c r xs)"

text \<open>\<^verbatim>\<open>s.indexOf(f)\<close>: the position of the first occurrence of \<open>f\<close> in \<open>s\<close>, or \<open>-1\<close>.\<close>

fun str_indexOf :: "string \<Rightarrow> string \<Rightarrow> int" where
  "str_indexOf [] f = (if f = [] then 0 else -1)"
| "str_indexOf (x # xs) f =
     (if take (length f) (x # xs) = f then 0
      else (let i = str_indexOf xs f in if i < 0 then -1 else i + 1))"

text \<open>\<^verbatim>\<open>s.substring(a, b)\<close>: both indices are clamped to \<open>[0, length s]\<close> and swapped when
  out of order.\<close>

definition substring :: "string \<Rightarrow> int \<Rightarrow> int \<Rightarrow> string" where
  "substring s a b =
     (let n = int (length s);
          a' = max 0 (min n a);
          b' = max 0 (min n b);
          lo = min a' b';
          hi = max a' b'
      in take (nat (hi - lo)) (drop (nat lo) s))"

text \<open>\<^verbatim>\<open>xs.indexOf(x)\<close> on an array.\<close>

fun array_indexOf :: "'a list \<Rightarrow> 'a \<Rightarrow> int" where
  "array_indexOf [] x = -1"
| "array_indexOf (y # ys) x =
     (if y = x then 0 else (let i = array_indexOf ys x in if i < 0 then -1 else i + 1))"

text \<open>\<^verbatim>\<open>xs[i] = v\<close> on an array: inside the array the element is replaced; past the end
  JavaScript extends the array with holes, which read as \<^verbatim>\<open>undefined\<close>; a negative index
  sets a property that is not an element, so the elements are unchanged.\<close>

definition array_set :: "jsval list \<Rightarrow> int \<Rightarrow> jsval \<Rightarrow> jsval list" where
  "array_set xs i v =
     (if i < 0 then xs
      else if nat i < length xs then xs[nat i := v]
      else xs @ replicate (nat i - length xs) Undefined @ [v])"

text \<open>\<^verbatim>\<open>s.toLowerCase()\<close> on ASCII letters.\<close>

definition lower_char :: "char \<Rightarrow> char" where
  "lower_char c =
     (case map_of (zip ''ABCDEFGHIJKLMNOPQRSTUVWXYZ'' ''abcdefghijklmnopqrstuvwxyz'') c of
        Some l \<Rightarrow> l
      | None \<Rightarrow> c)"

definition toLowerCase :: "string \<Rightarrow> string" where
  "toLowerCase s = map lower_char s"

section \<open>Output directory of a matrix cell\<close>

text \<open>
  \<^verbatim>\<open>const getV8OutPath = (args) =>
    `out.gn/${String(args.target_cpu).replace(/\"/g, "")}.${args.is_debug ? "debug" : "release"}`;\<close>
\<close>

definition getV8OutPath :: "jsobj \<Rightarrow> string" where
  "getV8OutPath args =
     ''out.gn/'' @ replace_all dq [] (to_string (get_prop args ''target_cpu'')) @ ''.''
       @ (if truthy (get_prop args ''is_debug'') then ''debug'' else ''release'')"

section \<open>Version extractor\<close>

text \<open>
  \<^verbatim>\<open>const targets = ["V8_MAJOR_VERSION", "V8_MINOR_VERSION", "V8_BUILD_NUMBER", "V8_PATCH_LEVEL"];
  let foundTargets = [0, 0, 0, 0];
  fs.readFileSync(versionsFile, "utf-8").split("\n").filter(s => {
      const f = targets.find(target => s.split(" ").includes(target));
      if (f) {
          const index = targets.indexOf(f);
          foundTargets[index] = s.substring(s.indexOf(f) + f.length + 1, s.length);
      }
  });
  const version = foundTargets.join(".");\<close>
\<close>

definition targets :: "string list" where
  "targets = [''V8_MAJOR_VERSION'', ''V8_MINOR_VERSION'', ''V8_BUILD_NUMBER'', ''V8_PATCH_LEVEL'']"

text \<open>The target a line selects: the first of \<open>targets\<close> that is one of the line's
  space-separated pieces.\<close>

definition find_target :: "string \<Rightarrow> string option" where
  "find_target s = find (\<lambda>target. target \<in> set (split_on space s)) targets"

text \<open>The body of the callback passed to \<^verbatim>\<open>filter\<close>, as a step on \<open>foundTargets\<close>.\<close>

definition scan_line :: "jsval list \<Rightarrow> string \<Rightarrow> jsval list" where
  "scan_line found s =
     (case find_target s of
        None \<Rightarrow> found
      | Some f \<Rightarrow>
          array_set found (array_indexOf targets f)
            (Str (substring s (str_indexOf s f + int (length f) + 1) (int (length s)))))"

definition foundTargets :: "string \<Rightarrow> jsval list" where
  "foundTargets content = foldl scan_line [Num 0, Num 0, Num 0, Num 0] (split_on newline content)"

definition version :: "string \<Rightarrow> string" where
  "version content = join ''.'' (map to_string (foundTargets content))"

text \<open>\<^verbatim>\<open>s.trim()\<close>: white space is removed at both ends.\<close>

definition is_space :: "char \<Rightarrow> bool" where
  "is_space c = (c \<in> set [CHR 0x20, CHR 0x09, CHR 0x0A, CHR 0x0B, CHR 0x0C, CHR 0x0D])"

definition trim :: "string \<Rightarrow> string" where
  "trim s = rev (dropWhile is_space (rev (dropWhile is_space s)))"

section \<open>Errors and paths\<close>

text \<open>
  What the script can throw: the runtime's \<^verbatim>\<open>TypeError\<close> (an operand of the wrong type) and
  \<^verbatim>\<open>ReferenceError\<close> (an identifier that no declaration binds), the errors of the file
  system calls, and the error event of a child process or a stream.
\<close>

datatype error =
    TypeError string
  | ReferenceError string
  | SystemError string string
  | ChildError string
  | StreamError string

text \<open>
  \<^verbatim>\<open>path.resolve(...args)\<close> on a POSIX host: the arguments are read from the last to the
  first until an absolute one is found; each argument read must be a string, otherwise a
  \<^verbatim>\<open>TypeError\<close> is thrown; empty strings are skipped; when no argument is absolute
  the working directory comes first. The result is normalised: empty and \<^verbatim>\<open>.\<close> segments
  go, \<^verbatim>\<open>..\<close> removes the segment before it. On \<^verbatim>\<open>win32\<close> the same scan and the
  same check run with the other separator and drive roots; the model keeps \<^verbatim>\<open>/\<close>.
\<close>

fun resolve_scan :: "string \<Rightarrow> jsval list \<Rightarrow> string \<Rightarrow> error + string" where
  "resolve_scan wd [] acc = Inr (wd @ ''/'' @ acc)"
| "resolve_scan wd (Str p # ps) acc =
     (case p of
        [] \<Rightarrow> resolve_scan wd ps acc
      | c # _ \<Rightarrow> if c = CHR ''/'' then Inr (p @ ''/'' @ acc) else resolve_scan wd ps (p @ ''/'' @ acc))"
| "resolve_scan wd (v # ps) acc =
     Inl (TypeError ''The paths argument must be of type string'')"

fun normalize_segments :: "bool \<Rightarrow> string list \<Rightarrow> string list \<Rightarrow> string list" where
  "normalize_segments absolute [] acc = rev acc"
| "normalize_segments absolute (s # ss) acc =
     (if s = [] \<or> s = ''.'' then normalize_segments absolute ss acc
      else if s = ''..'' then
        (case acc of
           [] \<Rightarrow> normalize_segments absolute ss (if absolute then [] else [''..''])
         | a # as \<Rightarrow>
             if a = ''..'' then normalize_segments absolute ss (''..'' # acc)
             else normalize_segments absolute ss as)
      else normalize_segments absolute ss (s # acc))"

definition is_absolute :: "string \<Rightarrow> bool" where
  "is_absolute p = (case p of [] \<Rightarrow> False | c # _ \<Rightarrow> c = CHR ''/'')"

definition normalize :: "string \<Rightarrow> string" where
  "normalize p =
     (if is_absolute p then CHR ''/'' # join ''/'' (normalize_segments True (split_on CHR ''/'' p) [])
      else (case join ''/'' (normalize_segments False (split_on CHR ''/'' p) []) of
              [] \<Rightarrow> ''.''
            | q \<Rightarrow> q))"

definition path_resolve :: "string \<Rightarrow> jsval list \<Rightarrow> error + string" where
  "path_resolve wd args =
     (case resolve_scan wd (rev args) [] of Inl e \<Rightarrow> Inl e | Inr p \<Rightarrow> Inr (normalize p))"

text \<open>\<^verbatim>\<open>path.join(...args)\<close>: every argument must be a string; the non-empty ones are
  joined and the result normalised. (No argument of the script ends with a separator,
  which \<^verbatim>\<open>path.join\<close> would keep.)\<close>

definition path_join :: "jsval list \<Rightarrow> error + string" where
  "path_join args =
     (if list_ex (\<lambda>v. case v of Str _ \<Rightarrow> False | _ \<Rightarrow> True) args
      then Inl (TypeError ''The path argument must be of type string'')
      else Inr (normalize (join ''/'' (filter (\<lambda>p. p \<noteq> []) (map to_string args)))))"

definition path_dirname :: "string \<Rightarrow> string" where
  "path_dirname p = CHR ''/'' # join ''/'' (butlast (normalize_segments True (split_on CHR ''/'' p) []))"

section \<open>The host and the state of a run\<close>

text \<open>The values \<^verbatim>\<open>os.platform()\<close> can return.\<close>

datatype os = Aix | Android | Darwin | FreeBSD | Linux | OpenBSD | SunOS | Win32

fun platform_name :: "os \<Rightarrow> string" where
  "platform_name Aix = ''aix''"
| "platform_name Android = ''android''"
| "platform_name Darwin = ''darwin''"
| "platform_name FreeBSD = ''freebsd''"
| "platform_name Linux = ''linux''"
| "platform_name OpenBSD = ''openbsd''"
| "platform_name SunOS = ''sunos''"
| "platform_name Win32 = ''win32''"

datatype fnode = File string | Dir

type_synonym filesys = "string \<Rightarrow> fnode option"

text \<open>
  What is outside the script is a parameter of the model. A child process started by
  \<^verbatim>\<open>exec\<close> is known by the first event it emits, \<^verbatim>\<open>exit\<close> with its code
  (\<^verbatim>\<open>null\<close>, here \<open>None\<close>, when a signal ended it) or \<^verbatim>\<open>error\<close>, or by emitting
  none, and by what it did to the files. The download, the extraction and the archiver
  are known by their events in the same way (\<open>Close\<close> carries the bytes of the archive).
\<close>

datatype child_event = Exit "int option" | Fails string | Hangs

datatype download_event = Response nat string | RequestError string | NoResponse

datatype archive_event = Close string | ArchiveError string | NoClose

record host =
  os :: os
  dirname :: string
  cwd :: string
  spawn :: "string \<Rightarrow> string \<Rightarrow> filesys \<Rightarrow> child_event \<times> filesys"
  download :: download_event
  unzip :: "string \<Rightarrow> string \<Rightarrow> filesys \<Rightarrow> filesys option"
  archiver :: archive_event

text \<open>
  The state a run changes: the files, \<^verbatim>\<open>process.env\<close>, the objects the script has
  allocated (a reference is an index into \<open>heap\<close>), the lines still to be read from
  the terminal, and what the run has done so far: the command lines executed with their
  directories, the lines printed by \<^verbatim>\<open>console.log\<close>, the entries into \<^verbatim>\<open>buildV8\<close> with
  the output path, the reference passed and the object behind it at that moment, the
  archive started, and whether the \<^verbatim>\<open>readline\<close> interface was closed.
\<close>

record world =
  files :: filesys
  env :: "string \<Rightarrow> string option"
  heap :: "jsobj list"
  stdin :: "string list"
  cmds :: "(string \<times> string) list"
  console :: "string list"
  calls :: "(string \<times> nat \<times> jsobj) list"
  archive :: "(string \<times> (string \<times> jsval) list) option"
  rl_closed :: bool

text \<open>
  The state of a promise when nothing more will happen to it: resolved with a value,
  rejected with an error, never settled, or cut short by \<^verbatim>\<open>process.exit(n)\<close>. An
  exception thrown by synchronous code inside an \<^verbatim>\<open>async\<close> function rejects its promise.
\<close>

datatype 'a result = Resolved 'a | Rejected error | Pending | Exits nat

text \<open>\<^verbatim>\<open>await m\<close> followed by the rest of the function.\<close>

definition await :: "'a result \<times> world \<Rightarrow> ('a \<Rightarrow> world \<Rightarrow> 'b result \<times> world) \<Rightarrow> 'b result \<times> world" where
  "await m k =
     (case m of
        (Resolved x, w) \<Rightarrow> k x w
      | (Rejected e, w) \<Rightarrow> (Rejected e, w)
      | (Pending, w) \<Rightarrow> (Pending, w)
      | (Exits n, w) \<Rightarrow> (Exits n, w))"

text \<open>A synchronous call that may throw, followed by the rest of the function.\<close>

definition attempt :: "error + 'a \<Rightarrow> world \<Rightarrow> ('a \<Rightarrow> 'b result \<times> world) \<Rightarrow> 'b result \<times> world" where
  "attempt r w k = (case r of Inl e \<Rightarrow> (Rejected e, w) | Inr x \<Rightarrow> k x)"

section \<open>Module constants\<close>

definition THIRD_PARTY :: string where
  "THIRD_PARTY = ''third_party''"

definition V8 :: string where
  "V8 = ''v8''"

definition BUILD :: string where
  "BUILD = ''build''"

definition DEPOT_TOOLS :: string where
  "DEPOT_TOOLS = ''depot_tools''"

definition platform :: "host \<Rightarrow> string" where
  "platform h = platform_name (os h)"

text \<open>A constant initialised by a call to \<^verbatim>\<open>path.resolve\<close> on strings, which cannot throw
  (lemmas \<open>path_resolve_strings\<close> and \<open>paths_strings\<close>).\<close>

definition const_path :: "error + string \<Rightarrow> jsval" where
  "const_path r = (case r of Inr p \<Rightarrow> Str p | Inl e \<Rightarrow> Undefined)"

definition ROOT_DIR :: "host \<Rightarrow> jsval" where
  "ROOT_DIR h = const_path (path_resolve (cwd h) [Str (dirname h)])"

text \<open>\<^verbatim>\<open>const resolve = (...p) => path.resolve(ROOT_DIR, ...p);\<close>\<close>

definition resolve :: "host \<Rightarrow> jsval list \<Rightarrow> error + string" where
  "resolve h p = path_resolve (cwd h) (ROOT_DIR h # p)"

text \<open>The object \<^verbatim>\<open>paths\<close>, with the eight properties the source gives it.\<close>

definition paths :: "host \<Rightarrow> jsobj" where
  "paths h =
     [(''thirdParty'', const_path (resolve h [Str THIRD_PARTY])),
      (''depot_tools'', const_path (resolve h [Str THIRD_PARTY, Str DEPOT_TOOLS])),
      (''v8'', const_path (resolve h [Str THIRD_PARTY, Str V8])),
      (''v8Src'', const_path (resolve h [Str THIRD_PARTY, Str V8, Str V8])),
      (''v8Out'', const_path (resolve h [Str THIRD_PARTY, Str V8, Str V8, Str ''out.gn''])),
      (''build'', const_path (resolve h [Str BUILD])),
      (''buildIncludes'', const_path (resolve h [Str BUILD, Str ''include''])),
      (''releases'', const_path (resolve h [Str ''releases'']))]"

section \<open>File system calls\<close>

definition existsSync :: "filesys \<Rightarrow> jsval \<Rightarrow> bool" where
  "existsSync fs v = (case v of Str p \<Rightarrow> fs p \<noteq> None | _ \<Rightarrow> False)"

definition mkdirSync :: "filesys \<Rightarrow> string \<Rightarrow> error + filesys" where
  "mkdirSync fs p =
     (if fs p \<noteq> None then Inl (SystemError ''EEXIST'' p)
      else if fs (path_dirname p) \<noteq> Some Dir then Inl (SystemError ''ENOENT'' p)
      else Inr (fs(p \<mapsto> Dir)))"

definition unlinkSync :: "filesys \<Rightarrow> string \<Rightarrow> error + filesys" where
  "unlinkSync fs p =
     (case fs p of
        Some (File c) \<Rightarrow> Inr (fs(p := None))
      | Some Dir \<Rightarrow> Inl (SystemError ''EPERM'' p)
      | None \<Rightarrow> Inl (SystemError ''ENOENT'' p))"

definition copyFileSync :: "filesys \<Rightarrow> string \<Rightarrow> string \<Rightarrow> error + filesys" where
  "copyFileSync fs src dst =
     (case fs src of
        Some (File c) \<Rightarrow>
          if fs (path_dirname dst) = Some Dir \<and> fs dst \<noteq> Some Dir then Inr (fs(dst \<mapsto> File c))
          else Inl (SystemError ''ENOENT'' dst)
      | Some Dir \<Rightarrow> Inl (SystemError ''EISDIR'' src)
      | None \<Rightarrow> Inl (SystemError ''ENOENT'' src))"

definition readFileSync :: "filesys \<Rightarrow> string \<Rightarrow> error + string" where
  "readFileSync fs p =
     (case fs p of
        Some (File c) \<Rightarrow> Inr c
      | Some Dir \<Rightarrow> Inl (SystemError ''EISDIR'' p)
      | None \<Rightarrow> Inl (SystemError ''ENOENT'' p))"

text \<open>\<^verbatim>\<open>fs.cpSync(src, dst, { recursive: true })\<close>: everything at and below \<open>src\<close> appears
  at and below \<open>dst\<close>.\<close>

definition cpSync :: "filesys \<Rightarrow> string \<Rightarrow> string \<Rightarrow> error + filesys" where
  "cpSync fs src dst =
     (if fs src = None then Inl (SystemError ''ENOENT'' src)
      else Inr (\<lambda>q. if q = dst \<or> take (length dst + 1) q = dst @ ''/''
                     then (case fs (src @ drop (length dst) q) of Some n \<Rightarrow> Some n | None \<Rightarrow> fs q)
                     else fs q))"

text \<open>
  \<^verbatim>\<open>const mkdirp = (...dirs) => {
      const dir = path.join(...dirs);
      !fs.existsSync(dir) && fs.mkdirSync(dir);
  };\<close>
\<close>

definition mkdirp :: "jsval list \<Rightarrow> filesys \<Rightarrow> error + filesys" where
  "mkdirp dirs fs =
     (case path_join dirs of
        Inl e \<Rightarrow> Inl e
      | Inr dir \<Rightarrow> if \<not> existsSync fs (Str dir) then mkdirSync fs dir else Inr fs)"

text \<open>One statement after another, and a \<^verbatim>\<open>for ... of\<close> loop, on calls that may throw.\<close>

definition and_then :: "error + filesys \<Rightarrow> (filesys \<Rightarrow> error + filesys) \<Rightarrow> error + filesys" where
  "and_then r k = (case r of Inl e \<Rightarrow> Inl e | Inr fs \<Rightarrow> k fs)"

fun for_each :: "'a list \<Rightarrow> ('a \<Rightarrow> filesys \<Rightarrow> error + filesys) \<Rightarrow> filesys \<Rightarrow> error + filesys" where
  "for_each [] body fs = Inr fs"
| "for_each (x # xs) body fs = and_then (body x fs) (for_each xs body)"

text \<open>
  \<^verbatim>\<open>const genLibPaths = () => {
      const oss = ["win32", "linux", "darwin"];
      const platforms = ["x86", "x64"];
      const buildTypes = ["Release", "Debug"];
      mkdirp(paths.build);
      for (const o of oss) {
          mkdirp(paths.build, o);
          for (const p of platforms) {
              mkdirp(paths.build, o, p);
              for (const t of buildTypes)
                  mkdirp(paths.build, o, p, t);
          }
      }
  }\<close>
\<close>

definition genLibPaths :: "host \<Rightarrow> filesys \<Rightarrow> error + filesys" where
  "genLibPaths h fs =
     (let oss = [''win32'', ''linux'', ''darwin''];
          platforms = [''x86'', ''x64''];
          buildTypes = [''Release'', ''Debug''];
          build = get_prop (paths h) ''build''
      in and_then (mkdirp [build] fs)
           (for_each oss (\<lambda>os_name fs.
              and_then (mkdirp [build, Str os_name] fs)
                (for_each platforms (\<lambda>p fs.
                   and_then (mkdirp [build, Str os_name, Str p] fs)
                     (for_each buildTypes (\<lambda>t fs. mkdirp [build, Str os_name, Str p, Str t] fs)))))))"

section \<open>External invocations\<close>

definition log :: "string \<Rightarrow> world \<Rightarrow> world" where
  "log msg w = w\<lparr>console := console w @ [msg]\<rparr>"

text \<open>\<^verbatim>\<open>const LOG = (msg) => console.log(`\n----------  ${msg}  ----------\n`);\<close>\<close>

definition LOG :: "string \<Rightarrow> world \<Rightarrow> world" where
  "LOG msg w = log ([newline] @ ''----------  '' @ msg @ ''  ----------'' @ [newline]) w"

text \<open>
  \<^verbatim>\<open>const run = (cmd, args, cwd = paths.thirdParty) => new Promise((res, rej) => {
      let p;
      console.log(`\nrunning command: ${cmd}\nwith args: ${args.join(" ")}\nin dir: ${cwd}\n`);
      p = exec(`${cmd} ${args.join(" ")}`, { cwd, env: process.env });
      p.stdout.pipe(process.stdout);
      p.stdin.pipe(process.stdin);
      p.stderr.pipe(process.stderr);
      p.on("exit", res);
      p.on("error", rej);
  });\<close>
  The promise settles at the first of the two events: \<^verbatim>\<open>exit\<close> resolves it with the exit
  code, whatever the code is, and \<^verbatim>\<open>error\<close> rejects it. With an undefined directory
  \<^verbatim>\<open>exec\<close> stays in the working directory of the process; a directory of another type
  makes \<^verbatim>\<open>exec\<close> throw inside the executor, which rejects the promise.
\<close>

definition command_line :: "string \<Rightarrow> string list \<Rightarrow> string" where
  "command_line cmd args = cmd @ '' '' @ join '' '' args"

definition run :: "host \<Rightarrow> string \<Rightarrow> string list \<Rightarrow> jsval \<Rightarrow> world \<Rightarrow> int option result \<times> world" where
  "run h cmd args dir w =
     (let cwd = (if dir = Undefined then get_prop (paths h) ''thirdParty'' else dir);
          w1 = log ([newline] @ ''running command: '' @ cmd @ [newline] @ ''with args: ''
                     @ join '' '' args @ [newline] @ ''in dir: '' @ to_string cwd @ [newline]) w
      in case cwd of
           Bool b \<Rightarrow> (Rejected (TypeError ''The options.cwd property must be of type string''), w1)
         | Num n \<Rightarrow> (Rejected (TypeError ''The options.cwd property must be of type string''), w1)
         | _ \<Rightarrow>
             (let d = (case cwd of Str d \<Rightarrow> d | _ \<Rightarrow> host.cwd h);
                  (ev, fs) = spawn h (command_line cmd args) d (files w1);
                  w2 = w1\<lparr>files := fs, cmds := cmds w1 @ [(command_line cmd args, d)]\<rparr>
              in (case ev of
                    Exit code \<Rightarrow> (Resolved code, w2)
                  | Fails e \<Rightarrow> (Rejected (ChildError e), w2)
                  | Hangs \<Rightarrow> (Pending, w2))))"

section \<open>Dependency bootstrapper and source fetcher\<close>

text \<open>
  \<^verbatim>\<open>const downloadDepotTools = () => new Promise((res, rej) => {
      const p = path.resolve(paths.thirdParty, "depot_tools.zip");
      const ws = fs.createWriteStream(p);
      const req = https.get("https://storage.googleapis.com/chrome-infra/depot_tools.zip", (response) => {
          if (response.statusCode !== 200)
              rej(new Error(`Failed to get '${url}' (${response.statusCode})`));
          else
              response.pipe(ws);
      });
      req.on("close", () => res(p));
      req.on("error", (e) => { console.log(e); process.exit(0); });
  });\<close>
  No declaration binds \<^verbatim>\<open>url\<close>, so building the message of the rejection throws a
  \<^verbatim>\<open>ReferenceError\<close> inside the response handler, which ends the process as an
  unhandled rejection does.
\<close>

definition downloadDepotTools :: "host \<Rightarrow> world \<Rightarrow> jsval result \<times> world" where
  "downloadDepotTools h w =
     attempt (path_resolve (cwd h) [get_prop (paths h) ''thirdParty'', Str ''depot_tools.zip'']) w (\<lambda>p.
       let w1 = w\<lparr>files := (files w)(p \<mapsto> File [])\<rparr>
       in (case download h of
             Response status body \<Rightarrow>
               if status \<noteq> 200 then (Rejected (ReferenceError ''url is not defined''), w1)
               else (Resolved (Str p), w1\<lparr>files := (files w1)(p \<mapsto> File body)\<rparr>)
           | RequestError e \<Rightarrow> (Exits 0, log e w1)
           | NoResponse \<Rightarrow> (Pending, w1)))"

text \<open>
  \<^verbatim>\<open>const unzipDepotTools = (zipPath) => new Promise((res, rej) => {
      const s = fs.createReadStream(zipPath)
      s.on("close", () => { fs.unlinkSync(zipPath); res(); });
      s.on("error", rej);
      const unzip = require("unzipper");
      s.pipe(unzip.Extract({ path: paths.depot_tools }));
  });\<close>
\<close>

definition unzipDepotTools :: "host \<Rightarrow> jsval \<Rightarrow> world \<Rightarrow> unit result \<times> world" where
  "unzipDepotTools h zipPath w =
     (case zipPath of
        Str z \<Rightarrow>
          (case files w z of
             Some (File body) \<Rightarrow>
               (case unzip h body (to_string (get_prop (paths h) ''depot_tools'')) (files w) of
                  None \<Rightarrow> (Rejected (StreamError z), w)
                | Some fs \<Rightarrow>
                    attempt (unlinkSync fs z) (w\<lparr>files := fs\<rparr>) (\<lambda>fs'. (Resolved (), w\<lparr>files := fs'\<rparr>)))
           | Some Dir \<Rightarrow> (Rejected (SystemError ''EISDIR'' z), w)
           | None \<Rightarrow> (Rejected (SystemError ''ENOENT'' z), w))
      | _ \<Rightarrow> (Rejected (TypeError ''The path argument must be of type string''), w))"

text \<open>
  \<^verbatim>\<open>const setupDepotTools = async () => {
      LOG("setting up depot tools");
      if (os.platform() == "win32") {
          const zipPath = await downloadDepotTools();
          await unzipDepotTools(zipPath);
      } else {
          await run("git", ["clone", "https://chromium.googlesource.com/chromium/tools/depot_tools.git"]);
          await run("gclient", []);
      }
  }\<close>
\<close>

definition setupDepotTools :: "host \<Rightarrow> world \<Rightarrow> unit result \<times> world" where
  "setupDepotTools h w =
     (let w1 = LOG ''setting up depot tools'' w
      in if platform h = ''win32''
         then await (downloadDepotTools h w1) (\<lambda>zipPath w2.
              await (unzipDepotTools h zipPath w2) (\<lambda>_ w3. (Resolved (), w3)))
         else await (run h ''git'' [''clone'', ''https://chromium.googlesource.com/chromium/tools/depot_tools.git''] Undefined w1) (\<lambda>_ w2.
              await (run h ''gclient'' [] Undefined w2) (\<lambda>_ w3. (Resolved (), w3))))"

text \<open>
  \<^verbatim>\<open>const fetchV8 = async () => {
      LOG("fetching v8 source");
      await run("fetch", [V8], paths.v8);
      await run("gclient", ["sync"], paths.v8Src);
      if (os.platform() != "win32")
          await run("./build/install-build-deps.sh", [], paths.v8Src);
  }\<close>
\<close>

definition fetchV8 :: "host \<Rightarrow> world \<Rightarrow> unit result \<times> world" where
  "fetchV8 h w =
     (let w1 = LOG ''fetching v8 source'' w
      in await (run h ''fetch'' [V8] (get_prop (paths h) ''v8'') w1) (\<lambda>_ w2.
         await (run h ''gclient'' [''sync''] (get_prop (paths h) ''v8Src'') w2) (\<lambda>_ w3.
         if platform h \<noteq> ''win32''
         then await (run h ''./build/install-build-deps.sh'' [] (get_prop (paths h) ''v8Src'') w3)
                (\<lambda>_ w4. (Resolved (), w4))
         else (Resolved (), w3))))"

section \<open>Build of one matrix cell\<close>

text \<open>References into the heap: reading the object behind a reference, allocating an
  object literal, and assigning to a property of the object behind a reference.\<close>

definition obj_at :: "world \<Rightarrow> nat \<Rightarrow> jsobj" where
  "obj_at w a = (if a < length (heap w) then heap w ! a else [])"

definition alloc :: "jsobj \<Rightarrow> world \<Rightarrow> nat \<times> world" where
  "alloc obj w = (length (heap w), w\<lparr>heap := heap w @ [obj]\<rparr>)"

definition assign :: "nat \<Rightarrow> string \<Rightarrow> jsval \<Rightarrow> world \<Rightarrow> world" where
  "assign a k v w = w\<lparr>heap := (heap w)[a := set_prop (obj_at w a) k v]\<rparr>"

text \<open>
  \<^verbatim>\<open>let argStr = "";
  for (const k in args)
      argStr += `${k}=${args[k]} `;
  argStr = argStr.trim().replace(/\"/g, "\\\"");\<close>
\<close>

definition argStr :: "jsobj \<Rightarrow> string" where
  "argStr args =
     replace_all dq [backslash, dq]
       (trim (concat (map (\<lambda>(k, v). k @ ''='' @ to_string v @ '' '') args)))"

text \<open>\<^verbatim>\<open>args.target_cpu.replace(/"/g, "")\<close>: a method call, which throws on a value that
  has no such method.\<close>

definition strip_quotes :: "jsval \<Rightarrow> error + string" where
  "strip_quotes v =
     (case v of
        Str s \<Rightarrow> Inr (replace_all dq [] s)
      | _ \<Rightarrow> Inl (TypeError ''args.target_cpu.replace is not a function''))"

text \<open>
  \<^verbatim>\<open>const buildV8 = async (outPath, args) => {
      const libName = os.platform() == "win32" ? "v8_monolith.lib" : "libv8_monolith.a";
      const buildPath = path.resolve(paths.v8Src, outPath, "obj", libName);
      if (!fs.existsSync(buildPath)) {
          let argStr = ""; ...
          LOG("Generating compilation arguments");
          await run("gn", ["gen", outPath, `--args="${argStr}"`], paths.v8Src);
          await run("ninja", ["-C", outPath, args.v8_monolithic ? "v8_monolith" : V8], paths.v8Src);
      }
      LOG(`Copying ${path.resolve(paths.v8Src, outPath, "obj", libName)}...`);
      const copyPath = resolve(paths.depLibs, os.platform(), args.target_cpu.replace(/"/g, ""),
                               args.is_debug ? "Debug" : "Release", libName);
      if (fs.existsSync(copyPath))
          fs.unlinkSync(copyPath);
      fs.copyFileSync(buildPath, copyPath);
  }\<close>
  The second parameter is a reference to the configuration object. The entry into the
  function is recorded in \<open>calls\<close>. \<open>buildPath\<close> is the constant of that name,
  computed again for the message; \<open>copyPath\<close> is the constant of that name, whose
  arguments are evaluated from left to right before \<^verbatim>\<open>resolve\<close> is called.
\<close>

definition libName :: "host \<Rightarrow> string" where
  "libName h = (if platform h = ''win32'' then ''v8_monolith.lib'' else ''libv8_monolith.a'')"

definition buildPath :: "host \<Rightarrow> string \<Rightarrow> error + string" where
  "buildPath h outPath =
     path_resolve (cwd h) [get_prop (paths h) ''v8Src'', Str outPath, Str ''obj'', Str (libName h)]"

definition copyPath :: "host \<Rightarrow> jsobj \<Rightarrow> error + string" where
  "copyPath h args =
     (case strip_quotes (get_prop args ''target_cpu'') of
        Inl e \<Rightarrow> Inl e
      | Inr cpu \<Rightarrow>
          resolve h [get_prop (paths h) ''depLibs'', Str (platform h), Str cpu,
                     Str (if truthy (get_prop args ''is_debug'') then ''Debug'' else ''Release''),
                     Str (libName h)])"

definition buildV8 :: "host \<Rightarrow> string \<Rightarrow> nat \<Rightarrow> world \<Rightarrow> unit result \<times> world" where
  "buildV8 h outPath args w0 =
     (let w = w0\<lparr>calls := calls w0 @ [(outPath, args, obj_at w0 args)]\<rparr>;
          v8Src = get_prop (paths h) ''v8Src''
      in attempt (buildPath h outPath) w (\<lambda>artifact.
         await (if \<not> existsSync (files w) (Str artifact)
                then (let flags = argStr (obj_at w args);
                          w1 = LOG ''Generating compilation arguments'' w
                      in await (run h ''gn'' [''gen'', outPath, ''--args='' @ [dq] @ flags @ [dq]] v8Src w1) (\<lambda>_ w2.
                         run h ''ninja'' [''-C'', outPath,
                             if truthy (get_prop (obj_at w2 args) ''v8_monolithic'') then ''v8_monolith'' else V8]
                           v8Src w2))
                else (Resolved None, w)) (\<lambda>_ w3.
         attempt (buildPath h outPath) w3 (\<lambda>shown.
         let w4 = LOG (''Copying '' @ shown @ ''...'') w3
         in attempt (copyPath h (obj_at w4 args)) w4 (\<lambda>target.
            attempt (if existsSync (files w4) (Str target) then unlinkSync (files w4) target
                     else Inr (files w4)) w4 (\<lambda>fs5.
            attempt (copyFileSync fs5 artifact target) (w4\<lparr>files := fs5\<rparr>) (\<lambda>fs6.
            (Resolved (), w4\<lparr>files := fs6\<rparr>))))))))"

section \<open>Configuration collector\<close>

text \<open>
  \<^verbatim>\<open>const getInput = (q, defaultValue) =>
      new Promise((res) => rl.question(q, r => res(r || defaultValue)));

  const getUserInput = async (prop, options = [], defaultValue = "") => {
      options = options.map(s => s.toLowerCase());
      const matchOptions = (m) => {
          if (options.length === 0)
              return true;
          return options.includes(m.toLowerCase());
      }
      const str = `${prop} [${options.join(", ")}]: (${defaultValue}) `
      let r = await getInput(str, defaultValue);
      while (!matchOptions(r))
          r = await getInput(str, defaultValue);
      return r;
  }\<close>
  The loop reads lines until one matches; when the terminal has no more lines the
  promise never settles.
\<close>

definition matchOptions :: "string list \<Rightarrow> string \<Rightarrow> bool" where
  "matchOptions options m = (if length options = 0 then True else toLowerCase m \<in> set options)"

fun read_answer :: "string list \<Rightarrow> string \<Rightarrow> string list \<Rightarrow> string result \<times> string list" where
  "read_answer options defaultValue [] = (Pending, [])"
| "read_answer options defaultValue (l # ls) =
     (let r = (if l = [] then defaultValue else l)
      in if matchOptions options r then (Resolved r, ls)
         else read_answer options defaultValue ls)"

definition getUserInput :: "string \<Rightarrow> string list \<Rightarrow> string \<Rightarrow> world \<Rightarrow> string result \<times> world" where
  "getUserInput question options defaultValue w =
     (let (r, rest) = read_answer (map toLowerCase options) defaultValue (stdin w)
      in (r, w\<lparr>stdin := rest\<rparr>))"

text \<open>\<^verbatim>\<open>String(Number(s))\<close> for the strings that reach it, which are made of digits,
  commas and spaces: a run of digits is that number, anything else is \<^verbatim>\<open>NaN\<close>.\<close>

definition number_string :: "string \<Rightarrow> string" where
  "number_string s =
     (if s \<noteq> [] \<and> list_all (\<lambda>c. c \<in> set ''0123456789'') s
      then (case dropWhile (\<lambda>c. c = CHR ''0'') s of [] \<Rightarrow> ''0'' | t \<Rightarrow> t)
      else ''NaN'')"

text \<open>
  Lines 192 to 215 of the callback: the toolchain questions.
  \<^verbatim>\<open>let useClang = os.platform() != "win32";
  if (os.platform() == "win32") {
      if (process.env.DEPOT_TOOLS_WIN_TOOLCHAIN === undefined) {
          const r = await getUserInput("use locally installed toolchain?", ["y", "n"], "y");
          if (r.toLowerCase() === "y")
              process.env.DEPOT_TOOLS_WIN_TOOLCHAIN = 0;
      }
      if (process.env.GYP_MSVS_VERSION === undefined)
          process.env.GYP_MSVS_VERSION =
              Number(await getUserInput("set MSVC version", ["2015, 2017", "2019"], "2019"));
  } else {
      const r = await getUserInput("use clang?", ["y", "n"], "y");
      useClang = r.toLowerCase() === "y";
  }\<close>
\<close>

definition toolchain :: "host \<Rightarrow> world \<Rightarrow> bool result \<times> world" where
  "toolchain h w =
     (let useClang = (platform h \<noteq> ''win32'')
      in if platform h = ''win32''
         then await (if env w ''DEPOT_TOOLS_WIN_TOOLCHAIN'' = None
                     then await (getUserInput ''use locally installed toolchain?'' [''y'', ''n''] ''y'' w) (\<lambda>r w1.
                            if toLowerCase r = ''y''
                            then (Resolved (), w1\<lparr>env := (env w1)(''DEPOT_TOOLS_WIN_TOOLCHAIN'' \<mapsto> ''0'')\<rparr>)
                            else (Resolved (), w1))
                     else (Resolved (), w)) (\<lambda>_ w2.
              await (if env w2 ''GYP_MSVS_VERSION'' = None
                     then await (getUserInput ''set MSVC version'' [''2015, 2017'', ''2019''] ''2019'' w2) (\<lambda>r w3.
                            (Resolved (), w3\<lparr>env := (env w3)(''GYP_MSVS_VERSION'' \<mapsto> number_string r)\<rparr>))
                     else (Resolved (), w2)) (\<lambda>_ w4.
              (Resolved useClang, w4)))
         else await (getUserInput ''use clang?'' [''y'', ''n''] ''y'' w) (\<lambda>r w1.
              (Resolved (toLowerCase r = ''y''), w1)))"

text \<open>
  \<^verbatim>\<open>const pathSep = os.platform() == "win32" ? ";" : ":";
  process.env.PATH = [paths.depot_tools, ...process.env.PATH.split(pathSep).filter(s => !!s)].join(pathSep);\<close>
\<close>

definition prepend_PATH :: "host \<Rightarrow> world \<Rightarrow> error + world" where
  "prepend_PATH h w =
     (let pathSep = (if platform h = ''win32'' then CHR '';'' else CHR '':'')
      in case env w ''PATH'' of
           None \<Rightarrow> Inl (TypeError ''Cannot read properties of undefined (reading split)'')
         | Some p \<Rightarrow>
             Inr (w\<lparr>env := (env w)(''PATH'' \<mapsto>
                    join [pathSep] (to_string (get_prop (paths h) ''depot_tools'')
                                    # filter (\<lambda>s. s \<noteq> []) (split_on pathSep p)))\<rparr>))"

section \<open>Build matrix executor and release packager\<close>

text \<open>
  Lines 253 to 278 of the callback: one object, written in place before each build.
  \<^verbatim>\<open>args.target_cpu = `"x64"`;
  args.v8_target_cpu = `"x64"`;
  args.is_debug = true;
  args.symbol_level = 2;
  await buildV8(getV8OutPath(args), args);
  args.is_debug = false;
  args.symbol_level = 0;
  await buildV8(getV8OutPath(args), args);
  if (os.platform() !== "linux") // Ubuntu 20.04 wont build x86 version for some reason...
  {
      args.target_cpu = `"x86"`;
      args.v8_target_cpu = `"x86"`;
      args.is_debug = true;
      args.symbol_level = 2;
      await buildV8(getV8OutPath(args), args);
      args.is_debug = false;
      args.symbol_level = 0;
      await buildV8(getV8OutPath(args), args);
  }\<close>
\<close>

definition quoted :: "string \<Rightarrow> string" where
  "quoted s = [dq] @ s @ [dq]"

definition set_cpu :: "nat \<Rightarrow> string \<Rightarrow> world \<Rightarrow> world" where
  "set_cpu args cpu w = assign args ''v8_target_cpu'' (Str (quoted cpu)) (assign args ''target_cpu'' (Str (quoted cpu)) w)"

definition set_debug :: "nat \<Rightarrow> bool \<Rightarrow> nat \<Rightarrow> world \<Rightarrow> world" where
  "set_debug args d level w = assign args ''symbol_level'' (Num level) (assign args ''is_debug'' (Bool d) w)"

definition build_matrix :: "host \<Rightarrow> nat \<Rightarrow> world \<Rightarrow> unit result \<times> world" where
  "build_matrix h args w =
     (let w1 = set_debug args True 2 (set_cpu args ''x64'' w)
      in await (buildV8 h (getV8OutPath (obj_at w1 args)) args w1) (\<lambda>_ w2.
         let w3 = set_debug args False 0 w2
         in await (buildV8 h (getV8OutPath (obj_at w3 args)) args w3) (\<lambda>_ w4.
            if platform h \<noteq> ''linux''
            then (let w5 = set_debug args True 2 (set_cpu args ''x86'' w4)
                  in await (buildV8 h (getV8OutPath (obj_at w5 args)) args w5) (\<lambda>_ w6.
                     let w7 = set_debug args False 0 w6
                     in await (buildV8 h (getV8OutPath (obj_at w7 args)) args w7) (\<lambda>_ w8.
                        (Resolved (), w8))))
            else (Resolved (), w4))))"

text \<open>
  Lines 280 to 311 of the callback: the version string and the archive.
  \<^verbatim>\<open>mkdirp(paths.releases);
  const versionsFile = path.resolve(__dirname, "..", "third_party", "v8", "v8", "include", "v8-version.h");
  ...
  const version = foundTargets.join(".");
  const releaseZipPath = path.resolve(paths.releases, `v8-${version}-${os.platform()}.zip`);
  const ws = fs.createWriteStream(releaseZipPath);
  const archive = archiver("zip");
  archive.on("close", () => { console.log("Done! :D"); process.exit(); });
  archive.pipe(ws);
  archive.directory(paths.buildIncludes, 'include');
  archive.directory(path.resolve(paths.build, os.platform()));
  archive.finalize();\<close>
  The archive is written after the callback has returned; \<open>archive\<close> records the path
  of the write stream and the directories added, each with the second argument of the
  call (none for the second directory).
\<close>

definition package_release :: "host \<Rightarrow> world \<Rightarrow> unit result \<times> world" where
  "package_release h w =
     attempt (mkdirp [get_prop (paths h) ''releases''] (files w)) w (\<lambda>fs1.
     let w1 = w\<lparr>files := fs1\<rparr>
     in attempt (path_resolve (cwd h) [Str (dirname h), Str ''..'', Str ''third_party'', Str ''v8'',
                   Str ''v8'', Str ''include'', Str ''v8-version.h'']) w1 (\<lambda>versionsFile.
        attempt (readFileSync (files w1) versionsFile) w1 (\<lambda>content.
        attempt (path_resolve (cwd h) [get_prop (paths h) ''releases'',
                   Str (''v8-'' @ version content @ ''-'' @ platform h @ ''.zip'')]) w1 (\<lambda>releaseZipPath.
        attempt (path_resolve (cwd h) [get_prop (paths h) ''build'', Str (platform h)]) w1 (\<lambda>osDir.
        (Resolved (),
         w1\<lparr>archive := Some (releaseZipPath,
               [(to_string (get_prop (paths h) ''buildIncludes''), Str ''include''), (osDir, Undefined)])\<rparr>))))))"

section \<open>The callback and the process\<close>

text \<open>
  The configuration literal of lines 217 to 233.
\<close>

definition initial_args :: "bool \<Rightarrow> string \<Rightarrow> bool \<Rightarrow> jsobj" where
  "initial_args isDebug cpu useClang =
     [(''is_debug'', Bool isDebug),
      (''target_cpu'', Str cpu),
      (''v8_target_cpu'', Str cpu),
      (''is_component_build'', Bool False),
      (''v8_static_library'', Bool True),
      (''v8_monolithic'', Bool True),
      (''v8_use_external_startup_data'', Bool False),
      (''v8_enable_test_features'', Bool False),
      (''v8_enable_i18n_support'', Bool False),
      (''treat_warnings_as_errors'', Bool False),
      (''symbol_level'', Num 0),
      (''v8_use_snapshot'', Bool False),
      (''is_clang'', Bool useClang),
      (''use_sysroot'', Bool False),
      (''use_custom_libcxx'', Bool False)]"

text \<open>
  Lines 238 to 249: the directories, the toolchain, the source and the headers.
  \<^verbatim>\<open>mkdirp(paths.thirdParty);
  if (!fs.existsSync(paths.depot_tools))
      await setupDepotTools();
  mkdirp(paths.v8);
  if (!fs.existsSync(paths.v8Src))
      await fetchV8();
  if (!fs.existsSync(paths.buildIncludes))
      fs.cpSync(path.join(paths.v8Src, "include"), paths.buildIncludes, { recursive: true });\<close>
\<close>

definition prepare :: "host \<Rightarrow> world \<Rightarrow> unit result \<times> world" where
  "prepare h w =
     attempt (mkdirp [get_prop (paths h) ''thirdParty''] (files w)) w (\<lambda>fs1.
     let w1 = w\<lparr>files := fs1\<rparr>
     in await (if \<not> existsSync (files w1) (get_prop (paths h) ''depot_tools'')
               then setupDepotTools h w1 else (Resolved (), w1)) (\<lambda>_ w2.
        attempt (mkdirp [get_prop (paths h) ''v8''] (files w2)) w2 (\<lambda>fs3.
        let w3 = w2\<lparr>files := fs3\<rparr>
        in await (if \<not> existsSync (files w3) (get_prop (paths h) ''v8Src'')
                  then fetchV8 h w3 else (Resolved (), w3)) (\<lambda>_ w4.
           if \<not> existsSync (files w4) (get_prop (paths h) ''buildIncludes'')
           then attempt (path_join [get_prop (paths h) ''v8Src'', Str ''include'']) w4 (\<lambda>src.
                attempt (cpSync (files w4) src (to_string (get_prop (paths h) ''buildIncludes''))) w4 (\<lambda>fs5.
                (Resolved (), w4\<lparr>files := fs5\<rparr>)))
           else (Resolved (), w4)))))"

text \<open>
  The callback passed to \<^verbatim>\<open>execFn\<close> (lines 185 to 320).
  \<^verbatim>\<open>genLibPaths();
  const buildAll = (await getUserInput("Build all? (Release and Debug for x86 and x64) ", ["y", "n"], "y")).toLowerCase() == "y";
  const isDebug = buildAll ? true : await getUserInput("is debug build", ["true", "false"], "false") == "true";
  const platform = buildAll ? "x64" : `"${await getUserInput("target cpu", ["x64", "x86"], "x64")}"`;
  ...
  if (buildAll) {
      ...
  } else {
      await buildV8(v8OutPath, args);
  }
  rl.removeAllListeners();
  rl.close();\<close>
  No declaration in the file binds \<^verbatim>\<open>v8OutPath\<close>: evaluating the arguments of the call in
  the \<^verbatim>\<open>else\<close> branch throws a \<^verbatim>\<open>ReferenceError\<close> before \<^verbatim>\<open>buildV8\<close> is entered.
\<close>

definition main :: "host \<Rightarrow> world \<Rightarrow> unit result \<times> world" where
  "main h w0 =
     attempt (genLibPaths h (files w0)) w0 (\<lambda>fs1.
     let w1 = w0\<lparr>files := fs1\<rparr>
     in await (getUserInput ''Build all? (Release and Debug for x86 and x64) '' [''y'', ''n''] ''y'' w1) (\<lambda>r w2.
        let buildAll = (toLowerCase r = ''y'')
        in await (if buildAll then (Resolved True, w2)
                  else await (getUserInput ''is debug build'' [''true'', ''false''] ''false'' w2)
                         (\<lambda>r w. (Resolved (r = ''true''), w))) (\<lambda>isDebug w3.
           await (if buildAll then (Resolved ''x64'', w3)
                  else await (getUserInput ''target cpu'' [''x64'', ''x86''] ''x64'' w3)
                         (\<lambda>r w. (Resolved (quoted r), w))) (\<lambda>cpu w4.
           await (toolchain h w4) (\<lambda>useClang w5.
           let (args, w6) = alloc (initial_args isDebug cpu useClang) w5
           in attempt (prepend_PATH h w6) w6 (\<lambda>w7.
              await (prepare h w7) (\<lambda>_ w8.
              await (if buildAll
                     then await (build_matrix h args w8) (\<lambda>_ w9. package_release h w9)
                     else (Rejected (ReferenceError ''v8OutPath is not defined''), w8)) (\<lambda>_ w10.
              (Resolved (), w10\<lparr>rl_closed := True\<rparr>)))))))))"

text \<open>
  How the process ends. A rejection of the callback's promise is handled nowhere
  (\<^verbatim>\<open>const execFn = async (cb) => await cb();\<close> and the call \<^verbatim>\<open>execFn(...)\<close> attach no
  handler) and ends the process with an error. When the callback has resolved and an
  archive was started, the \<^verbatim>\<open>close\<close> handler prints a line and calls \<^verbatim>\<open>process.exit()\<close>,
  whose exit code is 0; nothing listens for an error of the archive or of the write
  stream, whose file cannot be opened when its directory does not exist.
\<close>

datatype ending = ExitCalled nat | RunsOut | Uncaught error | Unsettled

definition program :: "host \<Rightarrow> world \<Rightarrow> ending \<times> world" where
  "program h w =
     (case main h w of
        (Rejected e, w') \<Rightarrow> (Uncaught e, w')
      | (Exits n, w') \<Rightarrow> (ExitCalled n, w')
      | (Pending, w') \<Rightarrow> (Unsettled, w')
      | (Resolved u, w') \<Rightarrow>
          (case archive w' of
             None \<Rightarrow> (RunsOut, w')
           | Some (zipPath, entries) \<Rightarrow>
               if files w' (path_dirname zipPath) \<noteq> Some Dir
               then (Uncaught (SystemError ''ENOENT'' zipPath), w')
               else (case archiver h of
                       Close bytes \<Rightarrow>
                         (ExitCalled 0, log ''Done! :D'' (w'\<lparr>files := (files w')(zipPath \<mapsto> File bytes)\<rparr>))
                     | ArchiveError e \<Rightarrow> (Uncaught (StreamError e), w')
                     | NoClose \<Rightarrow> (RunsOut, w'))))"

section \<open>Vocabulary of the properties and sample inputs\<close>













text \<open>A promise that was resolved, and a reading of the state that does not depend on
  the files, the environment, the terminal, the commands run or the lines printed.\<close>

definition is_resolved :: "'a result \<Rightarrow> bool" where
  "is_resolved r = (case r of Resolved x \<Rightarrow> True | _ \<Rightarrow> False)"

definition io_free :: "(world \<Rightarrow> 'a) \<Rightarrow> bool" where
  "io_free f = (\<forall>w fs e i c l. f (w\<lparr>files := fs\<rparr>) = f w \<and> f (w\<lparr>env := e\<rparr>) = f w
      \<and> f (w\<lparr>stdin := i\<rparr>) = f w \<and> f (w\<lparr>cmds := c\<rparr>) = f w \<and> f (w\<lparr>console := l\<rparr>) = f w)"

text \<open>
  Sample hosts and states. The script lives in \<^verbatim>\<open>/repo\<close>; \<open>checkout\<close> holds the
  toolchain, the source, the headers and some directories of the workspace layout;
  \<open>built\<close> also holds the x64 debug artifact. A host is given by its operating system
  and by what its child processes do: \<open>exits_with c\<close> makes every child exit with
  code \<open>c\<close> and touch no file, \<open>fails_with m\<close> makes every child emit an error;
  \<open>resolve_with\<close> is a continuation that hands the exit code on.
  \<open>configured\<close> is a state at line 251 of a full-matrix run, with the configuration
  object as line 217 builds it; \<open>cell_x64_debug\<close> is that state after the
  assignments of lines 254 to 258.
\<close>

definition checkout :: filesys where
  "checkout = map_of [(''/'', Dir), (''/repo'', Dir), (''/repo/third_party'', Dir),
     (''/repo/third_party/depot_tools'', Dir), (''/repo/third_party/v8'', Dir),
     (''/repo/third_party/v8/v8'', Dir), (''/repo/build'', Dir), (''/repo/build/include'', Dir),
     (''/repo/build/linux'', Dir), (''/repo/build/linux/x64'', Dir),
     (''/repo/build/linux/x64/Debug'', Dir), (''/repo/build/darwin'', Dir),
     (''/repo/build/darwin/x64'', Dir), (''/repo/build/darwin/x64/Debug'', Dir)]"

definition built :: filesys where
  "built = checkout(''/repo/third_party/v8/v8/out.gn/x64.debug/obj/libv8_monolith.a'' \<mapsto> File ''!<arch>'')"

definition exits_with :: "int \<Rightarrow> string \<Rightarrow> string \<Rightarrow> filesys \<Rightarrow> child_event \<times> filesys" where
  "exits_with code line dir fs = (Exit (Some code), fs)"


definition repo_host :: "os \<Rightarrow> (string \<Rightarrow> string \<Rightarrow> filesys \<Rightarrow> child_event \<times> filesys) \<Rightarrow> host" where
  "repo_host sys children = \<lparr>os = sys, dirname = ''/repo'', cwd = ''/repo'', spawn = children,
     download = NoResponse, unzip = (\<lambda>body dest fs. Some fs), archiver = Close ''PK''\<rparr>"

definition start :: "string list \<Rightarrow> filesys \<Rightarrow> world" where
  "start answers fs = \<lparr>files = fs, env = [''PATH'' \<mapsto> ''/usr/bin''], heap = [], stdin = answers,
     cmds = [], console = [], calls = [], archive = None, rl_closed = False\<rparr>"


definition configured :: world where
  "configured = (start [] built)\<lparr>heap := [initial_args True ''x64'' True]\<rparr>"

definition cell_x64_debug :: world where
  "cell_x64_debug = set_debug 0 True 2 (set_cpu 0 ''x64'' configured)"


section \<open>Module constants: the paths are strings\<close>

lemma resolve_scan_strings:
  "\<forall>v \<in> set args. \<exists>s. v = Str s \<Longrightarrow> \<exists>p. resolve_scan wd args acc = Inr p"
proof (induction args arbitrary: acc)
  case Nil
  then show ?case by simp
next
  case (Cons v args)
  then obtain s where "v = Str s" by auto
  with Cons show ?case by (cases s) auto
qed

lemma path_resolve_strings:
  assumes "\<forall>v \<in> set args. \<exists>s. v = Str s"
  shows "\<exists>p. path_resolve wd args = Inr p"
proof -
  from assms have "\<forall>v \<in> set (rev args). \<exists>s. v = Str s" by simp
  from resolve_scan_strings [OF this] obtain p where "resolve_scan wd (rev args) [] = Inr p" by blast
  then show ?thesis by (simp add: path_resolve_def)
qed

lemma ROOT_DIR_string: "\<exists>p. ROOT_DIR h = Str p"
proof -
  have "\<exists>p. path_resolve (cwd h) [Str (dirname h)] = Inr p"
    by (rule path_resolve_strings) simp
  then show ?thesis by (auto simp: ROOT_DIR_def const_path_def)
qed

lemma resolve_strings:
  assumes "\<forall>v \<in> set args. \<exists>s. v = Str s"
  shows "\<exists>p. const_path (resolve h args) = Str p"
proof -
  from ROOT_DIR_string obtain r where "ROOT_DIR h = Str r" by blast
  with assms have "\<forall>v \<in> set (ROOT_DIR h # args). \<exists>s. v = Str s" by simp
  from path_resolve_strings [OF this] obtain p where "resolve h args = Inr p"
    unfolding resolve_def by blast
  then show ?thesis by (simp add: const_path_def)
qed

lemma paths_strings: "\<forall>(k, v) \<in> set (paths h). \<exists>p. v = Str p"
  unfolding paths_def by (simp add: resolve_strings)

section \<open>Version extractor: properties\<close>

lemma replace_all_filter: "replace_all c [] s = filter (\<lambda>x. x \<noteq> c) s"
  by (induction s) auto




lemma str_indexOf_ge: "-1 \<le> str_indexOf s f"
  by (induction s) (auto simp: Let_def)







































section \<open>Output directory: properties\<close>

text \<open>
  C9: the output directory name depends on the architecture string and the debug flag
  only: it is \<^verbatim>\<open>out.gn/\<close>, the architecture with every double quote removed, and
  \<^verbatim>\<open>.debug\<close> when the flag is true, \<^verbatim>\<open>.release\<close> otherwise; architecture x64 with
  debug gives \<^verbatim>\<open>out.gn/x64.debug\<close>, architecture x86 without gives \<^verbatim>\<open>out.gn/x86.release\<close>.
\<close>

theorem getV8OutPath_pure:
  "(get_prop args ''target_cpu'' = Str cpu \<and> get_prop args ''is_debug'' = Bool d \<longrightarrow>
      getV8OutPath args = ''out.gn/'' @ filter (\<lambda>c. c \<noteq> dq) cpu @ (if d then ''.debug'' else ''.release''))
   \<and> getV8OutPath [(''target_cpu'', Str (quoted ''x64'')), (''is_debug'', Bool True)] = ''out.gn/x64.debug''
   \<and> getV8OutPath [(''target_cpu'', Str (quoted ''x86'')), (''is_debug'', Bool False)] = ''out.gn/x86.release''"
  by (simp add: getV8OutPath_def replace_all_filter get_prop_def quoted_def dq_def)

theorem getV8OutPath_pure_witness:
  "getV8OutPath (initial_args False (quoted ''x86'') True) = ''out.gn/x86.release''"
  using getV8OutPath_pure [of "initial_args False (quoted ''x86'') True" "quoted ''x86''" False]
  by (simp add: get_prop_def initial_args_def quoted_def dq_def)


section \<open>Promises and frames\<close>

lemma await_simps [simp]:
  "await (Resolved x, w) k = k x w"
  "await (Rejected e, w) k = (Rejected e, w)"
  "await (Pending, w) k = (Pending, w)"
  "await (Exits n, w) k = (Exits n, w)"
  by (simp_all add: await_def)

lemma attempt_simps [simp]:
  "attempt (Inl e) w k = (Rejected e, w)"
  "attempt (Inr x) w k = k x"
  by (simp_all add: attempt_def)

lemma is_resolved_simps [simp]:
  "is_resolved (Resolved x)" "\<not> is_resolved (Rejected e)" "\<not> is_resolved Pending"
  "\<not> is_resolved (Exits n)"
  by (simp_all add: is_resolved_def)

lemma await_keeps:
  assumes "f (snd m) = v" "\<And>x w. f w = v \<Longrightarrow> f (snd (k x w)) = v"
  shows "f (snd (await m k)) = v"
proof (cases m)
  case (Pair r w)
  with assms show ?thesis by (cases r) auto
qed

lemma attempt_keeps:
  assumes "f w = v" "\<And>x. r = Inr x \<Longrightarrow> f (snd (k x)) = v"
  shows "f (snd (attempt r w k)) = v"
  using assms by (cases r) auto

lemma await_never:
  assumes "\<And>x w. \<not> is_resolved (fst (k x w))"
  shows "\<not> is_resolved (fst (await m k))"
proof (cases m)
  case (Pair r w)
  with assms show ?thesis by (cases r) auto
qed

lemma await_never_inv:
  assumes "P (snd m)" "\<And>x w. P w \<Longrightarrow> \<not> is_resolved (fst (k x w))"
  shows "\<not> is_resolved (fst (await m k))"
proof (cases m)
  case (Pair r w)
  with assms show ?thesis by (cases r) auto
qed

lemma attempt_never:
  assumes "\<And>x. r = Inr x \<Longrightarrow> \<not> is_resolved (fst (k x))"
  shows "\<not> is_resolved (fst (attempt r w k))"
  using assms by (cases r) auto

lemma await_unresolved:
  assumes "\<not> is_resolved (fst m)"
  shows "snd (await m k) = snd m" and "\<not> is_resolved (fst (await m k))"
proof -
  obtain r w where m: "m = (r, w)" by (cases m)
  with assms show "snd (await m k) = snd m" by (cases r) auto
  from m assms show "\<not> is_resolved (fst (await m k))" by (cases r) auto
qed

lemma io_free_upd:
  assumes "io_free f"
  shows "f (w\<lparr>files := fs\<rparr>) = f w" "f (w\<lparr>env := e\<rparr>) = f w" "f (w\<lparr>stdin := i\<rparr>) = f w"
    "f (w\<lparr>cmds := c\<rparr>) = f w" "f (w\<lparr>console := l\<rparr>) = f w"
  using assms unfolding io_free_def by blast+

lemma io_free_fields: "io_free heap" "io_free calls" "io_free archive" "io_free rl_closed"
  unfolding io_free_def by simp_all

lemma log_files [simp]: "files (log msg w) = files w" "cmds (log msg w) = cmds w"
  "files (LOG msg w) = files w" "cmds (LOG msg w) = cmds w"
  by (simp_all add: log_def LOG_def)

lemma log_io_free:
  assumes "io_free f"
  shows "f (log msg w) = f w" "f (LOG msg w) = f w"
  by (simp_all add: log_def LOG_def io_free_upd [OF assms])

lemma run_io_free:
  assumes "io_free f"
  shows "f (snd (run h cmd args dir w)) = f w"
  by (simp add: run_def Let_def io_free_upd [OF assms] log_io_free [OF assms]
      split: jsval.splits prod.splits child_event.splits)

lemma getUserInput_io_free:
  assumes "io_free f"
  shows "f (snd (getUserInput q opts d w)) = f w"
  by (simp add: getUserInput_def io_free_upd [OF assms] split: prod.splits)

lemma downloadDepotTools_io_free:
  assumes "io_free f"
  shows "f (snd (downloadDepotTools h w)) = f w"
  unfolding downloadDepotTools_def
  by (rule attempt_keeps [of f])
     (simp_all add: Let_def io_free_upd [OF assms] log_io_free [OF assms] split: download_event.splits)

lemma unzipDepotTools_io_free:
  assumes "io_free f"
  shows "f (snd (unzipDepotTools h z w)) = f w"
  unfolding unzipDepotTools_def
  by (auto simp: io_free_upd [OF assms] split: jsval.splits option.splits fnode.splits
      intro!: attempt_keeps [of f])

lemma setupDepotTools_io_free:
  assumes "io_free f"
  shows "f (snd (setupDepotTools h w)) = f w"
  unfolding setupDepotTools_def Let_def
  by (auto simp: run_io_free [OF assms] log_io_free [OF assms] downloadDepotTools_io_free [OF assms]
      unzipDepotTools_io_free [OF assms] intro!: await_keeps [of f])

lemma fetchV8_io_free:
  assumes "io_free f"
  shows "f (snd (fetchV8 h w)) = f w"
  unfolding fetchV8_def Let_def
  by (auto simp: run_io_free [OF assms] log_io_free [OF assms] intro!: await_keeps [of f])

lemma toolchain_io_free:
  assumes "io_free f"
  shows "f (snd (toolchain h w)) = f w"
  unfolding toolchain_def Let_def
  by (auto simp: getUserInput_io_free [OF assms] io_free_upd [OF assms] intro!: await_keeps [of f])

lemma prepend_PATH_io_free:
  assumes "io_free f" "prepend_PATH h w = Inr w'"
  shows "f w' = f w"
  using assms(2) by (auto simp: prepend_PATH_def Let_def io_free_upd [OF assms(1)] split: option.splits)

lemma prepare_io_free:
  assumes "io_free f"
  shows "f (snd (prepare h w)) = f w"
  unfolding prepare_def Let_def
  by (auto simp: io_free_upd [OF assms] setupDepotTools_io_free [OF assms] fetchV8_io_free [OF assms]
      intro!: await_keeps [of f] attempt_keeps [of f])


section \<open>The destination of the copy\<close>

lemma getV8OutPath_eq:
  "get_prop args ''target_cpu'' = Str cpu \<Longrightarrow> get_prop args ''is_debug'' = Bool d \<Longrightarrow>
   getV8OutPath args = ''out.gn/'' @ filter (\<lambda>c. c \<noteq> dq) cpu @ (if d then ''.debug'' else ''.release'')"
  by (simp add: getV8OutPath_def replace_all_filter)

lemma resolve_scan_relative:
  "\<not> is_absolute p \<Longrightarrow>
   resolve_scan wd (Str p # ps) acc = resolve_scan wd ps (if p = [] then acc else p @ ''/'' @ acc)"
  by (cases p) (auto simp: is_absolute_def)

lemma platform_relative: "\<not> is_absolute (platform h)"
  by (cases "os h") (simp_all add: platform_def is_absolute_def)

lemma libName_relative: "\<not> is_absolute (libName h)"
  by (simp add: libName_def is_absolute_def)

lemma no_depLibs: "get_prop (paths h) ''depLibs'' = Undefined"
  by (simp add: paths_def get_prop_def)

lemma resolve_scan_undefined:
  assumes "\<not> is_absolute a" "\<not> is_absolute b" "\<not> is_absolute c" "\<not> is_absolute d"
  shows "resolve_scan wd [Str a, Str b, Str c, Str d, Undefined, r] [] =
           Inl (TypeError ''The paths argument must be of type string'')"
  by (simp add: resolve_scan_relative [OF assms(1)] resolve_scan_relative [OF assms(2)]
      resolve_scan_relative [OF assms(3)] resolve_scan_relative [OF assms(4)]
      del: resolve_scan.simps(2))

lemma copyPath_throws:
  assumes "get_prop args ''target_cpu'' = Str s" "\<not> is_absolute (replace_all dq [] s)"
  shows "copyPath h args = Inl (TypeError ''The paths argument must be of type string'')"
proof -
  let ?bt = "if truthy (get_prop args ''is_debug'') then ''Debug'' else ''Release''"
  have rel: "\<not> is_absolute ?bt"
    by (simp add: is_absolute_def)
  have "resolve_scan (cwd h) [Str (libName h), Str ?bt, Str (replace_all dq [] s), Str (platform h),
          Undefined, ROOT_DIR h] [] = Inl (TypeError ''The paths argument must be of type string'')"
    using libName_relative rel assms(2) platform_relative by (rule resolve_scan_undefined)
  then show ?thesis
    unfolding copyPath_def resolve_def path_resolve_def
    by (simp add: assms(1) strip_quotes_def no_depLibs del: replace_all.simps resolve_scan.simps)
qed

lemma copyPath_fails:
  assumes "\<And>s. get_prop args ''target_cpu'' = Str s \<Longrightarrow> \<not> is_absolute (replace_all dq [] s)"
  shows "\<exists>e. copyPath h args = Inl e"
proof (cases "get_prop args ''target_cpu''")
  case (Str s)
  with assms copyPath_throws show ?thesis by blast
qed (simp_all add: copyPath_def strip_quotes_def)

lemma obj_at_heap: "heap w' = heap w \<Longrightarrow> obj_at w' a = obj_at w a"
  by (simp add: obj_at_def)

lemma buildV8_never:
  assumes "\<And>s. get_prop (obj_at w a) ''target_cpu'' = Str s \<Longrightarrow> \<not> is_absolute (replace_all dq [] s)"
  shows "\<not> is_resolved (fst (buildV8 h outPath a w))"
proof -
  let ?w = "w\<lparr>calls := calls w @ [(outPath, a, obj_at w a)]\<rparr>"
  have stop: "\<not> is_resolved (fst (attempt (copyPath h (obj_at w' a)) w' k))" if "heap w' = heap w" for w' k
  proof -
    from that have "obj_at w' a = obj_at w a" by (rule obj_at_heap)
    with copyPath_fails [of "obj_at w a" h, OF assms] obtain e where "copyPath h (obj_at w' a) = Inl e"
      by auto
    then show ?thesis by simp
  qed
  show ?thesis
    unfolding buildV8_def Let_def
    apply (rule attempt_never)
    apply (rule await_never_inv [where P = "\<lambda>w'. heap w' = heap w"])
     apply (auto simp: run_io_free [OF io_free_fields(1)] log_io_free [OF io_free_fields(1)]
        intro!: await_keeps [of heap])[1]
    apply (rule attempt_never)
    apply (rule stop)
    apply (simp add: log_io_free [OF io_free_fields(1)])
    done
qed

lemma buildV8_frame:
  assumes "io_free f"
  shows "f (snd (buildV8 h outPath a w)) = f (w\<lparr>calls := calls w @ [(outPath, a, obj_at w a)]\<rparr>)"
  unfolding buildV8_def Let_def
  by (auto simp: io_free_upd [OF assms] run_io_free [OF assms] log_io_free [OF assms]
      intro!: await_keeps [of f] attempt_keeps [of f])


lemma buildV8_calls: "calls (snd (buildV8 h outPath a w)) = calls w @ [(outPath, a, obj_at w a)]"
  by (simp add: buildV8_frame [OF io_free_fields(2)])

lemma buildV8_archive: "archive (snd (buildV8 h outPath a w)) = archive w"
  by (simp add: buildV8_frame [OF io_free_fields(3)])

lemma buildV8_existing:
  assumes "buildPath h outPath = Inr artifact" "existsSync (files w) (Str artifact)"
  shows "cmds (snd (buildV8 h outPath a w)) = cmds w"
  unfolding buildV8_def Let_def
  using assms by (auto simp: intro!: attempt_keeps [of cmds])

lemma buildV8_existing_result:
  assumes "buildPath h outPath = Inr artifact" "existsSync (files w) (Str artifact)"
    "copyPath h (obj_at w a) = Inl e"
  shows "buildV8 h outPath a w =
           (Rejected e, LOG (''Copying '' @ artifact @ ''...'') (w\<lparr>calls := calls w @ [(outPath, a, obj_at w a)]\<rparr>))"
proof -
  have "obj_at (LOG (''Copying '' @ artifact @ ''...'') (w\<lparr>calls := calls w @ [(outPath, a, obj_at w a)]\<rparr>)) a = obj_at w a"
    by (rule obj_at_heap) (simp add: log_io_free [OF io_free_fields(1)])
  with assms show ?thesis
    unfolding buildV8_def Let_def by simp
qed


section \<open>Build matrix and callback: never resolved\<close>

lemma get_set_prop: "get_prop (set_prop obj k v) k' = (if k' = k then v else get_prop obj k')"
  by (simp add: get_prop_def set_prop_def update_conv')

lemma assign_fields [simp]:
  "files (assign a k v w) = files w" "calls (assign a k v w) = calls w"
  "archive (assign a k v w) = archive w" "cmds (assign a k v w) = cmds w"
  "console (assign a k v w) = console w" "stdin (assign a k v w) = stdin w"
  "env (assign a k v w) = env w" "rl_closed (assign a k v w) = rl_closed w"
  "length (heap (assign a k v w)) = length (heap w)"
  by (simp_all add: assign_def)

lemma obj_at_assign:
  "a < length (heap w) \<Longrightarrow> obj_at (assign a k v w) a = set_prop (obj_at w a) k v"
  by (simp add: assign_def obj_at_def)

lemma obj_at_beyond: "\<not> a < length (heap w) \<Longrightarrow> obj_at w a = []"
  by (simp add: obj_at_def)

lemma set_cell_fields [simp]:
  "files (set_cpu a c w) = files w" "calls (set_cpu a c w) = calls w"
  "archive (set_cpu a c w) = archive w" "cmds (set_cpu a c w) = cmds w"
  "length (heap (set_cpu a c w)) = length (heap w)"
  "files (set_debug a d l w) = files w" "calls (set_debug a d l w) = calls w"
  "archive (set_debug a d l w) = archive w" "cmds (set_debug a d l w) = cmds w"
  "length (heap (set_debug a d l w)) = length (heap w)"
  by (simp_all add: set_cpu_def set_debug_def)

lemma obj_at_set_cpu:
  "a < length (heap w) \<Longrightarrow>
   obj_at (set_cpu a c w) a =
     set_prop (set_prop (obj_at w a) ''target_cpu'' (Str (quoted c))) ''v8_target_cpu'' (Str (quoted c))"
  by (simp add: set_cpu_def obj_at_assign)

lemma obj_at_set_debug:
  "a < length (heap w) \<Longrightarrow>
   obj_at (set_debug a d l w) a =
     set_prop (set_prop (obj_at w a) ''is_debug'' (Bool d)) ''symbol_level'' (Num l)"
  by (simp add: set_debug_def obj_at_assign)

lemma first_cell:
  assumes "a < length (heap w)"
  shows "get_prop (obj_at (set_debug a True 2 (set_cpu a ''x64'' w)) a) ''target_cpu'' = Str (quoted ''x64'')"
    and "get_prop (obj_at (set_debug a True 2 (set_cpu a ''x64'' w)) a) ''v8_target_cpu'' = Str (quoted ''x64'')"
    and "get_prop (obj_at (set_debug a True 2 (set_cpu a ''x64'' w)) a) ''is_debug'' = Bool True"
    and "get_prop (obj_at (set_debug a True 2 (set_cpu a ''x64'' w)) a) ''symbol_level'' = Num 2"
  using assms by (simp_all add: obj_at_set_debug obj_at_set_cpu get_set_prop)

lemma strip_quoted: "replace_all dq [] (quoted ''x64'') = ''x64''"
  by (simp add: quoted_def dq_def)

lemma first_cell_outPath:
  assumes "a < length (heap w)"
  shows "getV8OutPath (obj_at (set_debug a True 2 (set_cpu a ''x64'' w)) a) = ''out.gn/x64.debug''"
  using getV8OutPath_eq [OF first_cell(1) [OF assms] first_cell(3) [OF assms]]
  by (simp add: quoted_def dq_def)

lemma first_build_never:
  "\<not> is_resolved (fst (buildV8 h p a (set_debug a True 2 (set_cpu a ''x64'' w))))"
proof (rule buildV8_never)
  fix s
  assume s: "get_prop (obj_at (set_debug a True 2 (set_cpu a ''x64'' w)) a) ''target_cpu'' = Str s"
  show "\<not> is_absolute (replace_all dq [] s)"
  proof (cases "a < length (heap w)")
    case True
    from first_cell(1) [OF True] s have "s = quoted ''x64''" by simp
    then show ?thesis by (simp add: strip_quoted is_absolute_def)
  next
    case False
    then have "obj_at (set_debug a True 2 (set_cpu a ''x64'' w)) a = []"
      by (simp add: obj_at_beyond)
    with s show ?thesis by (simp add: get_prop_def)
  qed
qed

lemma build_matrix_never: "\<not> is_resolved (fst (build_matrix h a w))"
  unfolding build_matrix_def Let_def
  by (rule await_unresolved(2)) (rule first_build_never)

lemma build_matrix_snd:
  "snd (build_matrix h a w) =
     snd (buildV8 h (getV8OutPath (obj_at (set_debug a True 2 (set_cpu a ''x64'' w)) a)) a
            (set_debug a True 2 (set_cpu a ''x64'' w)))"
  unfolding build_matrix_def Let_def
  by (rule await_unresolved(1)) (rule first_build_never)

lemma build_matrix_calls:
  assumes "a < length (heap w)"
  shows "calls (snd (build_matrix h a w)) =
           calls w @ [(''out.gn/x64.debug'', a, obj_at (set_debug a True 2 (set_cpu a ''x64'' w)) a)]"
  by (simp add: build_matrix_snd buildV8_calls first_cell_outPath [OF assms])

lemma no_x86_on_linux:
  assumes "a < length (heap w)"
  shows "map fst (drop (length (calls w)) (calls (snd (build_matrix h a w)))) = [''out.gn/x64.debug'']"
  by (simp add: build_matrix_calls [OF assms])


lemma build_matrix_archive: "archive (snd (build_matrix h a w)) = archive w"
  by (simp add: build_matrix_snd buildV8_archive)

lemma branch_never:
  "\<not> is_resolved (fst (if b then await (build_matrix h a w) k else (Rejected e, w)))"
  by (simp add: await_unresolved(2) build_matrix_never)

lemma branch_snd:
  "snd (if b then await (build_matrix h a w) k else (Rejected e, w)) =
     (if b then snd (build_matrix h a w) else w)"
  by (simp add: await_unresolved(1) build_matrix_never)

lemma alloc_fields [simp]:
  "archive (snd (alloc obj w)) = archive w" "calls (snd (alloc obj w)) = calls w"
  "files (snd (alloc obj w)) = files w" "fst (alloc obj w) = length (heap w)"
  "heap (snd (alloc obj w)) = heap w @ [obj]"
  by (simp_all add: alloc_def)

lemma main_never: "\<not> is_resolved (fst (main h w))"
  unfolding main_def Let_def
  apply (rule attempt_never)
  apply (rule await_never)
  apply (rule await_never)
  apply (rule await_never)
  apply (rule await_never)
  apply (simp split: prod.splits)
  apply (intro allI impI)
  apply (rule attempt_never)
  apply (rule await_never)
  apply (rule await_unresolved(2))
  apply (rule branch_never)
  done

lemma main_archive: "archive (snd (main h w)) = archive w"
proof -
  note keep = io_free_fields(3)
  have last: "archive (snd (await (if b then await (build_matrix h a w') k
                 else (Rejected e, w')) k')) = archive w'" for b a w' k e k'
    by (simp add: await_unresolved(1) branch_never branch_snd build_matrix_archive)
  show ?thesis
    unfolding main_def Let_def
    apply (rule attempt_keeps [of archive])
     apply simp
    apply (rule await_keeps [of archive])
     apply (simp add: getUserInput_io_free [OF keep])
    apply (rule await_keeps [of archive])
     apply (auto simp: getUserInput_io_free [OF keep] intro!: await_keeps [of archive])[1]
    apply (rule await_keeps [of archive])
     apply (auto simp: getUserInput_io_free [OF keep] intro!: await_keeps [of archive])[1]
    apply (rule await_keeps [of archive])
     apply (simp add: toolchain_io_free [OF keep])
    apply (simp split: prod.splits)
    apply (intro allI impI)
    apply (rule attempt_keeps [of archive])
     apply (simp add: alloc_def)
    apply (rule await_keeps [of archive])
     apply (simp add: prepare_io_free [OF keep] prepend_PATH_io_free [OF keep] alloc_def)
    apply (simp add: last)
    done
qed


section \<open>Sample hosts: paths\<close>

lemma paths_repo:
  "paths (repo_host sys children) =
     [(''thirdParty'', Str ''/repo/third_party''),
      (''depot_tools'', Str ''/repo/third_party/depot_tools''),
      (''v8'', Str ''/repo/third_party/v8''),
      (''v8Src'', Str ''/repo/third_party/v8/v8''),
      (''v8Out'', Str ''/repo/third_party/v8/v8/out.gn''),
      (''build'', Str ''/repo/build''),
      (''buildIncludes'', Str ''/repo/build/include''),
      (''releases'', Str ''/repo/releases'')]"
  by (simp add: paths_def resolve_def ROOT_DIR_def path_resolve_def repo_host_def const_path_def
      normalize_def is_absolute_def THIRD_PARTY_def V8_def BUILD_def DEPOT_TOOLS_def)

lemma buildPath_repo:
  "sys \<noteq> Win32 \<Longrightarrow> buildPath (repo_host sys children) ''out.gn/x64.debug'' =
     Inr ''/repo/third_party/v8/v8/out.gn/x64.debug/obj/libv8_monolith.a''"
  by (cases sys) (simp_all add: buildPath_def paths_repo get_prop_def libName_def platform_def
      path_resolve_def normalize_def is_absolute_def, simp_all add: repo_host_def)


section \<open>External invocations: properties\<close>







lemma copyPath_configured:
  assumes "heap w = [initial_args True ''x64'' True]"
  shows "copyPath h (obj_at (set_debug 0 True 2 (set_cpu 0 ''x64'' w)) 0)
           = Inl (TypeError ''The paths argument must be of type string'')"
proof -
  have a: "0 < length (heap w)" using assms by simp
  show ?thesis
    by (rule copyPath_throws [OF first_cell(1) [OF a]]) (simp add: strip_quoted is_absolute_def)
qed


section \<open>Build of a cell, matrix and packager: properties\<close>

lemma configured_fields:
  "heap configured = [initial_args True ''x64'' True]" "files configured = built"
  "calls configured = []" "cmds configured = []" "archive configured = None"
  by (simp_all add: configured_def start_def)

lemma built_artifact:
  "existsSync built (Str ''/repo/third_party/v8/v8/out.gn/x64.debug/obj/libv8_monolith.a'')"
  by (simp add: existsSync_def built_def)

text \<open>
  C5: if the artifact already exists at the cell's expected output path (the source
  directory, the output directory, \<^verbatim>\<open>obj\<close> and the library file name of the platform),
  \<open>buildV8\<close> runs no external command for that cell: neither the generator nor the
  builder is invoked.
\<close>

theorem existing_artifact_skips_build:
  "buildPath h outPath = Inr artifact \<and> existsSync (files w) (Str artifact)
   \<longrightarrow> cmds (snd (buildV8 h outPath args w)) = cmds w"
  using buildV8_existing by blast

theorem existing_artifact_skips_build_witness:
  "cmds (snd (buildV8 (repo_host Linux (exits_with 0)) ''out.gn/x64.debug'' 0 cell_x64_debug)) = []"
proof -
  have f: "files cell_x64_debug = built" "cmds cell_x64_debug = []"
    by (simp_all add: cell_x64_debug_def configured_fields)
  have "buildPath (repo_host Linux (exits_with 0)) ''out.gn/x64.debug''
          = Inr ''/repo/third_party/v8/v8/out.gn/x64.debug/obj/libv8_monolith.a''"
    by (rule buildPath_repo) simp
  with existing_artifact_skips_build [of "repo_host Linux (exits_with 0)" "''out.gn/x64.debug''"
      "''/repo/third_party/v8/v8/out.gn/x64.debug/obj/libv8_monolith.a''" cell_x64_debug 0]
  show ?thesis by (simp add: f built_artifact)
qed

lemma first_build_result:
  assumes "sys \<noteq> Win32"
  shows "buildV8 (repo_host sys children) ''out.gn/x64.debug'' 0 cell_x64_debug =
     (Rejected (TypeError ''The paths argument must be of type string''),
      LOG (''Copying /repo/third_party/v8/v8/out.gn/x64.debug/obj/libv8_monolith.a...'')
        (cell_x64_debug\<lparr>calls := calls cell_x64_debug @ [(''out.gn/x64.debug'', 0, obj_at cell_x64_debug 0)]\<rparr>))"
proof -
  have e: "existsSync (files cell_x64_debug) (Str ''/repo/third_party/v8/v8/out.gn/x64.debug/obj/libv8_monolith.a'')"
    by (simp add: cell_x64_debug_def configured_fields built_artifact)
  have c: "copyPath (repo_host sys children) (obj_at cell_x64_debug 0)
             = Inl (TypeError ''The paths argument must be of type string'')"
    unfolding cell_x64_debug_def by (rule copyPath_configured) (rule configured_fields)
  from buildV8_existing_result [OF buildPath_repo [OF assms] e c] show ?thesis by simp
qed

text \<open>
  C2 says that after a cell completes, skipped or built, the artifact is copied to
  \<^verbatim>\<open>build/<os>/<architecture>/<Debug|Release>/<library>\<close>. The code computes the
  destination from \<^verbatim>\<open>paths.depLibs\<close>, a property that \<^verbatim>\<open>paths\<close> does not have, so
  \<^verbatim>\<open>path.resolve\<close> throws before anything is copied. Here the x64 debug cell of a Linux
  host, whose artifact exists: \<open>buildV8\<close> is rejected with the \<^verbatim>\<open>TypeError\<close>, the
  files are what they were, and the directory of the workspace layout holds no
  artifact.
\<close>

theorem copy_never_reached:
  "fst (buildV8 (repo_host Linux (exits_with 0)) ''out.gn/x64.debug'' 0 cell_x64_debug)
     = Rejected (TypeError ''The paths argument must be of type string'')
   \<and> files (snd (buildV8 (repo_host Linux (exits_with 0)) ''out.gn/x64.debug'' 0 cell_x64_debug)) = built
   \<and> built ''/repo/build/linux/x64/Debug'' = Some Dir
   \<and> built ''/repo/build/linux/x64/Debug/libv8_monolith.a'' = None"
proof -
  have "Linux \<noteq> Win32" by simp
  from first_build_result [OF this, of "exits_with 0"] show ?thesis
    by (simp add: cell_x64_debug_def configured_fields built_def checkout_def)
qed

text \<open>
  C7 says that in full-matrix mode the cells are processed in the order x64 debug, x64
  release, x86 debug, x86 release, without the x86 cells on Linux. On a macOS host, where
  all four cells are due, the code enters \<open>buildV8\<close> for x64 debug only: that build is
  rejected (see C2), and the rejection ends the callback before the second cell.
\<close>

theorem matrix_stops_at_first_cell:
  "fst (build_matrix (repo_host Darwin (exits_with 0)) 0 configured)
     = Rejected (TypeError ''The paths argument must be of type string'')
   \<and> map fst (calls (snd (build_matrix (repo_host Darwin (exits_with 0)) 0 configured)))
       = [''out.gn/x64.debug'']"
proof -
  let ?h = "repo_host Darwin (exits_with 0)"
  have a: "0 < length (heap configured)" by (simp add: configured_fields)
  have "Darwin \<noteq> Win32" by simp
  from first_build_result [OF this, of "exits_with 0"]
  have "fst (build_matrix ?h 0 configured) = Rejected (TypeError ''The paths argument must be of type string'')"
    unfolding build_matrix_def Let_def first_cell_outPath [OF a] cell_x64_debug_def by simp
  moreover have "map fst (calls (snd (build_matrix ?h 0 configured))) = [''out.gn/x64.debug'']"
    by (simp add: build_matrix_calls [OF a] configured_fields)
  ultimately show ?thesis by simp
qed

text \<open>
  C8 says that in full-matrix mode the release packager creates the archive and that the
  process prints a message and exits with code 0 when the archive is closed. In the code
  the packager comes after the build matrix, which never resolves (see C2): for every host
  and every state the callback's promise is not resolved, no archive is started, and the
  process ends in the state the callback left, the \<^verbatim>\<open>close\<close> handler never having run.
\<close>

theorem release_packager_unreachable:
  "\<not> is_resolved (fst (main h w)) \<and> archive (snd (main h w)) = archive w
   \<and> snd (program h w) = snd (main h w)"
proof -
  have n: "\<not> is_resolved (fst (main h w))" by (rule main_never)
  have "snd (program h w) = snd (main h w)"
  proof (cases "main h w")
    case (Pair r w')
    with n show ?thesis by (cases r) (simp_all add: program_def)
  qed
  with n main_archive show ?thesis by simp
qed

text \<open>
  C3 says that in single-cell mode the pipeline builds the one requested configuration
  and all stages resolve. In the code the call in the \<^verbatim>\<open>else\<close> branch names
  \<^verbatim>\<open>v8OutPath\<close>, which nothing declares: on a Linux host with the user asking for one
  x64 release build, the callback is rejected with a \<^verbatim>\<open>ReferenceError\<close>, \<open>buildV8\<close>
  is never entered, no command is run, and the \<^verbatim>\<open>readline\<close> interface is not closed.
\<close>

theorem single_cell_throws:
  "fst (main (repo_host Linux (exits_with 0)) (start [''n'', ''false'', ''x64'', ''y''] checkout))
     = Rejected (ReferenceError ''v8OutPath is not defined'')
   \<and> calls (snd (main (repo_host Linux (exits_with 0)) (start [''n'', ''false'', ''x64'', ''y''] checkout))) = []
   \<and> cmds (snd (main (repo_host Linux (exits_with 0)) (start [''n'', ''false'', ''x64'', ''y''] checkout))) = []
   \<and> \<not> rl_closed (snd (main (repo_host Linux (exits_with 0)) (start [''n'', ''false'', ''x64'', ''y''] checkout)))"
  by code_simp


section \<open>Configuration object: properties\<close>







end
